theory Spec2Isabelle
  imports Main "HOL-Library.Char_ord" "HOL-Library.List_Lexorder" "HOL-Library.Sublist"
begin

chapter \<open>The model\<close>

section \<open>Domain types (package domain)\<close>

text \<open>
  \<^verbatim>\<open>type JobStatus string\<close> and its seven constants. A status is a string, as in the
  source, so the \<^verbatim>\<open>default\<close> branches of the switches below are live: they answer for
  every string outside the seven.
\<close>

type_synonym JobStatus = string

definition JobStatusIdle :: JobStatus where "JobStatusIdle = ''idle''"
definition JobStatusPreprocessing :: JobStatus where "JobStatusPreprocessing = ''preprocessing''"
definition JobStatusTranscribing :: JobStatus where "JobStatusTranscribing = ''transcribing''"
definition JobStatusExporting :: JobStatus where "JobStatusExporting = ''exporting''"
definition JobStatusDone :: JobStatus where "JobStatusDone = ''done''"
definition JobStatusFailed :: JobStatus where "JobStatusFailed = ''failed''"
definition JobStatusCancelled :: JobStatus where "JobStatusCancelled = ''cancelled''"

lemmas JobStatus_defs =
  JobStatusIdle_def JobStatusPreprocessing_def JobStatusTranscribing_def
  JobStatusExporting_def JobStatusDone_def JobStatusFailed_def JobStatusCancelled_def

record Job =
  ID :: string
  Status :: JobStatus

section \<open>Job manager (package jobs, manager.go)\<close>

text \<open>
  The errors of the manager. \<^verbatim>\<open>ErrJobAlreadyRunning\<close> and \<^verbatim>\<open>ErrNoRunningJob\<close> are the
  package's sentinel values; the two errors that \<^verbatim>\<open>Transition\<close> builds with
  \<^verbatim>\<open>fmt.Errorf\<close> are told apart by their text: "cannot transition without an active
  job" and "invalid transition: from -> to".
\<close>

datatype jobs_error =
    ErrJobAlreadyRunning
  | ErrNoRunningJob
  | ErrTransitionWithoutJob
  | ErrInvalidTransition JobStatus JobStatus

text \<open>The manager's only field besides its lock is the current job.\<close>

record Manager =
  current :: Job

definition NewManager :: Manager where
  "NewManager = \<lparr>current = \<lparr>ID = [], Status = JobStatusIdle\<rparr>\<rparr>"

definition isRunning :: "JobStatus \<Rightarrow> bool" where
  "isRunning status =
     (if status = JobStatusPreprocessing \<or> status = JobStatusTranscribing
         \<or> status = JobStatusExporting then True
      else False)"

definition isValidTransition :: "JobStatus \<Rightarrow> JobStatus \<Rightarrow> bool" where
  "isValidTransition from to =
     (if from = JobStatusIdle then to = JobStatusPreprocessing
      else if from = JobStatusPreprocessing
        then to = JobStatusTranscribing \<or> to = JobStatusFailed \<or> to = JobStatusCancelled
      else if from = JobStatusTranscribing
        then to = JobStatusExporting \<or> to = JobStatusFailed \<or> to = JobStatusCancelled
      else if from = JobStatusExporting
        then to = JobStatusDone \<or> to = JobStatusFailed \<or> to = JobStatusCancelled
      else if from = JobStatusDone \<or> from = JobStatusFailed \<or> from = JobStatusCancelled
        then to = JobStatusPreprocessing \<or> to = JobStatusIdle
      else False)"

text \<open>
  Every method mutates the receiver under its lock and returns an error or nil: the
  model returns the error (or \<open>None\<close>) together with the manager afterwards, which is
  the manager before whenever the method returned early.
\<close>

definition Start :: "Manager \<Rightarrow> string \<Rightarrow> jobs_error option \<times> Manager" where
  "Start m jobID =
     (if isRunning (Status (current m)) then (Some ErrJobAlreadyRunning, m)
      else (None, m\<lparr>current := \<lparr>ID = jobID, Status = JobStatusPreprocessing\<rparr>\<rparr>))"

definition Transition :: "Manager \<Rightarrow> JobStatus \<Rightarrow> jobs_error option \<times> Manager" where
  "Transition m status =
     (if ID (current m) = [] \<and> status \<noteq> JobStatusIdle then (Some ErrTransitionWithoutJob, m)
      else if status = Status (current m) then (None, m)
      else if \<not> isValidTransition (Status (current m)) status
        then (Some (ErrInvalidTransition (Status (current m)) status), m)
      else (None, m\<lparr>current := (current m)\<lparr>Status := status\<rparr>\<rparr>))"

definition Current :: "Manager \<Rightarrow> Job" where
  "Current m = current m"

definition Reset :: "Manager \<Rightarrow> Manager" where
  "Reset m = m\<lparr>current := \<lparr>ID = [], Status = JobStatusIdle\<rparr>\<rparr>"

definition IsRunning :: "Manager \<Rightarrow> bool" where
  "IsRunning m = isRunning (Status (current m))"

definition Cancel :: "Manager \<Rightarrow> jobs_error option \<times> Manager" where
  "Cancel m =
     (if \<not> isRunning (Status (current m)) then (Some ErrNoRunningJob, m)
      else (None, m\<lparr>current := (current m)\<lparr>Status := JobStatusCancelled\<rparr>\<rparr>))"

text \<open>
  The transition table as the specification prints it, row by row, to compare with
  \<^const>\<open>isValidTransition\<close>.
\<close>

definition spec_edge_table :: "(JobStatus \<times> JobStatus) list" where
  "spec_edge_table =
     [(JobStatusIdle, JobStatusPreprocessing),
      (JobStatusPreprocessing, JobStatusTranscribing),
      (JobStatusPreprocessing, JobStatusFailed),
      (JobStatusPreprocessing, JobStatusCancelled),
      (JobStatusTranscribing, JobStatusExporting),
      (JobStatusTranscribing, JobStatusFailed),
      (JobStatusTranscribing, JobStatusCancelled),
      (JobStatusExporting, JobStatusDone),
      (JobStatusExporting, JobStatusFailed),
      (JobStatusExporting, JobStatusCancelled),
      (JobStatusDone, JobStatusPreprocessing),
      (JobStatusDone, JobStatusIdle),
      (JobStatusFailed, JobStatusPreprocessing),
      (JobStatusFailed, JobStatusIdle),
      (JobStatusCancelled, JobStatusPreprocessing),
      (JobStatusCancelled, JobStatusIdle)]"

definition spec_active :: "JobStatus set" where
  "spec_active = {JobStatusPreprocessing, JobStatusTranscribing, JobStatusExporting}"

text \<open>
  The calls a client of the manager can make, and the managers a sequence of calls
  reaches from \<^const>\<open>NewManager\<close>.
\<close>

datatype manager_call =
    CallStart string
  | CallTransition JobStatus
  | CallCancel
  | CallReset

fun manager_step :: "Manager \<Rightarrow> manager_call \<Rightarrow> Manager" where
  "manager_step m (CallStart jobID) = snd (Start m jobID)"
| "manager_step m (CallTransition status) = snd (Transition m status)"
| "manager_step m CallCancel = snd (Cancel m)"
| "manager_step m CallReset = Reset m"

definition manager_after :: "manager_call list \<Rightarrow> Manager" where
  "manager_after calls = foldl manager_step NewManager calls"

section \<open>Event bus (package jobs)\<close>

text \<open>
  \<^verbatim>\<open>type EventType string\<close> and its constants. The event's \<^verbatim>\<open>Status\<close> field is named
  \<open>EventStatus\<close> here, the job's field having the name already. \<^verbatim>\<open>Seq\<close> is an
  \<^verbatim>\<open>int64\<close> that starts at 0 and grows by one per publish, so it is an unbounded integer
  here; \<^verbatim>\<open>Timestamp\<close> is an instant counted from the zero time, for which
  \<^verbatim>\<open>IsZero\<close> holds.
\<close>

type_synonym EventType = string

definition EventTypeStatus :: EventType where "EventTypeStatus = ''status''"
definition EventTypeLog :: EventType where "EventTypeLog = ''log''"
definition EventTypeResult :: EventType where "EventTypeResult = ''result''"
definition EventTypeError :: EventType where "EventTypeError = ''error''"

record Event =
  Seq :: int
  Timestamp :: nat
  JobID :: string
  Type :: EventType
  EventStatus :: JobStatus
  Message :: string
  Command :: string
  Args :: "string list"
  ExitCode :: int
  Stdout :: string
  Stderr :: string
  TextPath :: string

record EventBus =
  nextSeq :: int
  maxEvents :: int
  events :: "Event list"

text \<open>
  \<^verbatim>\<open>NewEventBus\<close> replaces a capacity that is not positive by 500 and leaves
  \<^verbatim>\<open>nextSeq\<close> at its zero value.
\<close>

definition NewEventBus :: "int \<Rightarrow> EventBus" where
  "NewEventBus n =
     \<lparr>nextSeq = 0, maxEvents = (if n \<le> 0 then 500 else n), events = []\<rparr>"

text \<open>
  \<^verbatim>\<open>Publish\<close> reads the clock only when the event carries the zero time; the reading
  is the argument \<open>now\<close>. It returns the finalized event and the bus afterwards.
  \<^verbatim>\<open>b.events[trim:]\<close> is \<^const>\<open>drop\<close>; the capacity is positive in every bus that
  \<^const>\<open>NewEventBus\<close> builds, so \<open>trim\<close> is within the slice.
\<close>

definition Publish :: "EventBus \<Rightarrow> nat \<Rightarrow> Event \<Rightarrow> Event \<times> EventBus" where
  "Publish b now event =
     (let seq = nextSeq b + 1;
          event = event\<lparr>Seq := seq\<rparr>;
          event = (if Timestamp event = 0 then event\<lparr>Timestamp := now\<rparr> else event);
          evs = events b @ [event];
          evs = (if int (length evs) > maxEvents b
                 then drop (nat (int (length evs) - maxEvents b)) evs else evs)
      in (event, b\<lparr>nextSeq := seq, events := evs\<rparr>))"




text \<open>
  The publish history as the specification describes it: the \<open>k\<close>-th published event
  is the \<open>k\<close>-th argument with sequence number \<open>n + k\<close> (\<open>n\<close> the numbers already
  given out) and with the clock reading for a timestamp if it had none.
\<close>

definition stamp :: "int \<Rightarrow> nat \<times> Event \<Rightarrow> Event" where
  "stamp n x = (snd x)\<lparr>Seq := n,
      Timestamp := (if Timestamp (snd x) = 0 then fst x else Timestamp (snd x))\<rparr>"

fun spec_history :: "int \<Rightarrow> (nat \<times> Event) list \<Rightarrow> Event list" where
  "spec_history n [] = []"
| "spec_history n (x # xs) = stamp (n + 1) x # spec_history (n + 1) xs"

text \<open>The zero value \<^verbatim>\<open>Event{}\<close>, and the three publishes of the package's tests.\<close>

definition zeroEvent :: Event where
  "zeroEvent = \<lparr>Seq = 0, Timestamp = 0, JobID = [], Type = [], EventStatus = [],
     Message = [], Command = [], Args = [], ExitCode = 0, Stdout = [], Stderr = [],
     TextPath = []\<rparr>"



section \<open>Go standard library: package strings\<close>

text \<open>
  A Go string is a sequence of bytes, read as UTF-8 where a function works on code
  points: a \<open>string\<close> here, one \<open>char\<close> per byte.

  \<^verbatim>\<open>strings.TrimSpace\<close> removes the leading and the trailing white space, as
  \<^verbatim>\<open>unicode.IsSpace\<close> defines it: the code points U+0009 to U+000D, U+0020, U+0085,
  U+00A0, U+1680, U+2000 to U+200A, U+2028, U+2029, U+202F, U+205F and U+3000.
  \<open>unicodeSpaces\<close> lists their UTF-8 encodings. Decoding forwards, a white-space code point
  starts the string exactly when one of the encodings is a prefix of it; decoding
  backwards, one ends the string exactly when one of the encodings is a suffix of it.
\<close>

definition unicodeSpaces :: "string list" where
  "unicodeSpaces =
     [[CHR 0x09], [CHR 0x0A], [CHR 0x0B], [CHR 0x0C], [CHR 0x0D], [CHR 0x20],
      [CHR 0xC2, CHR 0x85], [CHR 0xC2, CHR 0xA0],
      [CHR 0xE1, CHR 0x9A, CHR 0x80],
      [CHR 0xE2, CHR 0x80, CHR 0x80], [CHR 0xE2, CHR 0x80, CHR 0x81],
      [CHR 0xE2, CHR 0x80, CHR 0x82], [CHR 0xE2, CHR 0x80, CHR 0x83],
      [CHR 0xE2, CHR 0x80, CHR 0x84], [CHR 0xE2, CHR 0x80, CHR 0x85],
      [CHR 0xE2, CHR 0x80, CHR 0x86], [CHR 0xE2, CHR 0x80, CHR 0x87],
      [CHR 0xE2, CHR 0x80, CHR 0x88], [CHR 0xE2, CHR 0x80, CHR 0x89],
      [CHR 0xE2, CHR 0x80, CHR 0x8A],
      [CHR 0xE2, CHR 0x80, CHR 0xA8], [CHR 0xE2, CHR 0x80, CHR 0xA9],
      [CHR 0xE2, CHR 0x80, CHR 0xAF], [CHR 0xE2, CHR 0x81, CHR 0x9F],
      [CHR 0xE3, CHR 0x80, CHR 0x80]]"

text \<open>
  The width in bytes of the white-space code point at the head of \<open>s\<close>, 0 if there is
  none, and the loop of \<^verbatim>\<open>TrimLeftFunc\<close> that skips such code points. The right trim is
  the left trim of the reversed string with the reversed encodings.
\<close>

definition spaceWidth :: "string list \<Rightarrow> string \<Rightarrow> nat" where
  "spaceWidth spaces s = (case find (\<lambda>p. prefix p s) spaces of None \<Rightarrow> 0 | Some p \<Rightarrow> length p)"

function trimLeftFunc :: "string list \<Rightarrow> string \<Rightarrow> string" where
  "trimLeftFunc spaces s =
     (if spaceWidth spaces s = 0 then s else trimLeftFunc spaces (drop (spaceWidth spaces s) s))"
  by pat_completeness auto
termination
proof (relation "measure (\<lambda>(spaces, s). length s)")
  show "wf (measure (\<lambda>(spaces, s). length s))" by simp
next
  fix spaces :: "string list" and s :: string
  assume "spaceWidth spaces s \<noteq> 0"
  then obtain p where "find (\<lambda>p. prefix p s) spaces = Some p" "length p \<noteq> 0"
    by (auto simp add: spaceWidth_def split: option.splits)
  then have "prefix p s" "p \<noteq> []" by (auto simp add: find_Some_iff)
  then have "s \<noteq> []" by auto
  with \<open>spaceWidth spaces s \<noteq> 0\<close>
  show "((spaces, drop (spaceWidth spaces s) s), (spaces, s)) \<in> measure (\<lambda>(spaces, s). length s)"
    by simp
qed

declare trimLeftFunc.simps [simp del]

definition TrimSpace :: "string \<Rightarrow> string" where
  "TrimSpace s =
     rev (trimLeftFunc (map rev unicodeSpaces) (rev (trimLeftFunc unicodeSpaces s)))"


text \<open>
  \<^verbatim>\<open>strings.EqualFold\<close> compares under Unicode simple case folding. Two ASCII bytes match
  when they are equal or differ by letter case. No code point outside ASCII folds to an
  ASCII letter other than \<open>k\<close> (U+212A) and \<open>s\<close> (U+017F), so the byte-wise comparison
  here is exact whenever one argument is an ASCII string without those two letters, as
  the only call in the pipeline has it (\<open>''auto''\<close>); in general it is exact on ASCII.
\<close>

definition asciiUpper :: "char \<Rightarrow> bool" where
  "asciiUpper c = (65 \<le> (of_char c :: nat) \<and> (of_char c :: nat) \<le> 90)"

definition asciiLower :: "char \<Rightarrow> char" where
  "asciiLower c = (if asciiUpper c then char_of ((of_char c :: nat) + 32) else c)"

fun EqualFold :: "string \<Rightarrow> string \<Rightarrow> bool" where
  "EqualFold [] [] = True"
| "EqualFold (sr # s) (tr # t) =
     (if tr = sr then EqualFold s t
      else if asciiUpper sr \<and> (of_char tr :: nat) = of_char sr + 32 then EqualFold s t
      else if asciiUpper tr \<and> (of_char sr :: nat) = of_char tr + 32 then EqualFold s t
      else False)"
| "EqualFold _ _ = False"

text \<open>
  \<^verbatim>\<open>strings.ToLower\<close> maps every code point to its lower case. The only code points
  outside ASCII whose lower case is an ASCII letter are U+0130 (to \<open>i\<close>) and U+212A
  (to \<open>k\<close>); every other byte outside ASCII is left as it is here, where Go writes
  another code point outside ASCII. The result therefore equals a given ASCII string
  exactly when Go's does, which is all the pipeline asks of it.
\<close>

fun ToLower :: "string \<Rightarrow> string" where
  "ToLower [] = []"
| "ToLower (c # cs) =
     (if c = CHR 0xC4 \<and> prefix [CHR 0xB0] cs then CHR ''i'' # ToLower (drop 1 cs)
      else if c = CHR 0xE2 \<and> prefix [CHR 0x84, CHR 0xAA] cs then CHR ''k'' # ToLower (drop 2 cs)
      else asciiLower c # ToLower cs)"

section \<open>Pipeline (package transcribe): command arguments\<close>

definition normalizeLanguage :: "string \<Rightarrow> string" where
  "normalizeLanguage raw =
     (let lang = TrimSpace raw in
      if lang = [] \<or> EqualFold lang ''auto'' then [] else lang)"

definition buildWhisperArgs :: "string \<Rightarrow> string \<Rightarrow> string \<Rightarrow> string \<Rightarrow> string list" where
  "buildWhisperArgs modelPath audioPath textBase language =
     (let args = [''-m'', modelPath, ''-f'', audioPath, ''-of'', textBase, ''-otxt''];
          lang = normalizeLanguage language
      in if lang \<noteq> [] then args @ [''-l'', lang] else args)"


section \<open>Go standard library: package path/filepath\<close>

text \<open>
  The functions of \<^verbatim>\<open>path/filepath\<close> that the pipeline calls, for a system whose path
  separator is the slash and whose paths have no volume name (Linux, macOS).
  \<^verbatim>\<open>Ext\<close> scans backwards for a dot and stops at a separator; \<^verbatim>\<open>Base\<close> strips the
  trailing separators and returns the last element, a dot for the empty path and a
  separator for a path of separators only.
\<close>

definition TrimSuffix :: "string \<Rightarrow> string \<Rightarrow> string" where
  "TrimSuffix s sfx = (if suffix sfx s then take (length s - length sfx) s else s)"

definition Separator :: char where
  "Separator = CHR ''/''"

fun ext_loop :: "string \<Rightarrow> string \<Rightarrow> string" where
  "ext_loop [] acc = []"
| "ext_loop (c # cs) acc =
     (if c = Separator then []
      else if c = CHR ''.'' then c # acc
      else ext_loop cs (c # acc))"

definition Ext :: "string \<Rightarrow> string" where
  "Ext path = ext_loop (rev path) []"

definition Base :: "string \<Rightarrow> string" where
  "Base path =
     (if path = [] then ''.''
      else let stripped = rev (dropWhile (\<lambda>c. c = Separator) (rev path));
               element = rev (takeWhile (\<lambda>c. c \<noteq> Separator) (rev stripped))
           in if element = [] then [Separator] else element)"

text \<open>
  \<^verbatim>\<open>Clean\<close> by its documented rules: the elements between separators are read from the
  left; an empty element and a dot are dropped; two dots remove the element before them,
  are dropped at the root, and are kept where nothing is left to remove. \<open>out\<close> holds the
  elements kept so far, the last one first. \<^verbatim>\<open>Join\<close> of two elements skips the leading
  empty ones and cleans the rest, joined by separators.
\<close>

fun splitSeparator :: "string \<Rightarrow> string list" where
  "splitSeparator [] = [[]]"
| "splitSeparator (c # cs) =
     (if c = Separator then [] # splitSeparator cs
      else (case splitSeparator cs of
              [] \<Rightarrow> [[c]]
            | element # elements \<Rightarrow> (c # element) # elements))"

fun clean_step :: "bool \<Rightarrow> string list \<Rightarrow> string \<Rightarrow> string list" where
  "clean_step rooted out element =
     (if element = [] \<or> element = ''.'' then out
      else if element = ''..'' then
        (case out of
           [] \<Rightarrow> if rooted then out else [''..'']
         | lastElem # below \<Rightarrow> if lastElem = ''..'' then (if rooted then out else ''..'' # out) else below)
      else element # out)"

fun joinSeparator :: "string list \<Rightarrow> string" where
  "joinSeparator [] = []"
| "joinSeparator [element] = element"
| "joinSeparator (element # elements) = element @ Separator # joinSeparator elements"

definition Clean :: "string \<Rightarrow> string" where
  "Clean path =
     (if path = [] then ''.''
      else let rooted = (hd path = Separator);
               out = foldl (clean_step rooted) [] (splitSeparator path);
               body = joinSeparator (rev out)
           in if rooted then Separator # body
              else if body = [] then ''.'' else body)"

definition Join :: "string \<Rightarrow> string \<Rightarrow> string" where
  "Join a b =
     (if a \<noteq> [] then Clean (a @ Separator # b)
      else if b \<noteq> [] then Clean b
      else [])"


section \<open>Pipeline (package transcribe)\<close>

text \<open>
  A Go \<^verbatim>\<open>error\<close> value, as far as the program looks at one: its message
  (\<^verbatim>\<open>err.Error()\<close>), whether \<^verbatim>\<open>errors.Is(err, context.Canceled)\<close> holds, and the exit
  code if \<^verbatim>\<open>errors.As\<close> finds an \<^verbatim>\<open>*exec.ExitError\<close> in it. \<open>Errorf\<close> is an error made
  by \<^verbatim>\<open>fmt.Errorf\<close> or \<^verbatim>\<open>errors.New\<close> from a text that wraps nothing.
\<close>

datatype go_error = GoError (Error: string) (IsCanceled: bool) (ExitErrorCode: "int option")

definition Errorf :: "string \<Rightarrow> go_error" where
  "Errorf msg = GoError msg False None"

text \<open>
  The records of the package. Where two structs have a field of the same name, the
  fields of \<^verbatim>\<open>CommandLog\<close> carry the prefix \<open>Log\<close>, those of \<^verbatim>\<open>commandResult\<close> the
  prefix \<open>Res\<close>, and \<^verbatim>\<open>PipelineError\<close> has \<open>ErrMessage\<close> and \<open>ErrCommandLog\<close>. A
  \<^verbatim>\<open>PipelineError\<close> without a command log holds the zero \<^verbatim>\<open>CommandLog\<close>. The request's
  callbacks are recorded when they are set (see below), so a request only says whether
  each one is set.
\<close>

record CommandLog =
  LogCommand :: string
  LogArgs :: "string list"
  LogExitCode :: int
  LogStdout :: string
  LogStderr :: string

definition zeroCommandLog :: CommandLog where
  "zeroCommandLog =
     \<lparr>LogCommand = [], LogArgs = [], LogExitCode = 0, LogStdout = [], LogStderr = []\<rparr>"

record PipelineError =
  Stage :: string
  ErrMessage :: string
  ErrCommandLog :: CommandLog
  Err :: "go_error option"

record commandResult =
  ResStdout :: string
  ResStderr :: string
  ResExitCode :: int

record Request =
  InputPath :: string
  ModelPath :: string
  Language :: string
  OutputDir :: string
  OnStage :: bool
  OnLog :: bool

record Result =
  PreprocessedAudioPath :: string
  ResultTextPath :: string
  Transcript :: string
  Logs :: "CommandLog list"
  tempDir :: string

record FileInfo =
  IsDir :: bool

record DirEntry =
  Name :: string
  EntryIsDir :: bool

text \<open>
  The pipeline reaches the outside world through the functions stored in it (the
  command runner and the file operations) and through the two callbacks. A \<open>history\<close> is
  the list of those calls made so far, oldest first; each stored function answers from
  the history before the call and its arguments, so that a later \<^verbatim>\<open>stat\<close> may see what
  an earlier command did. Every function of the pipeline takes the history and returns
  it extended by the calls it made. The context is handed to the runner unchanged; what
  a cancelled context does to a command is part of the runner's answer. The result of
  \<^verbatim>\<open>removeAll\<close> is discarded by every caller, so the function's answer is never asked.
\<close>

datatype call =
    CallStat string
  | CallMkdirAll string nat
  | CallMkdirTemp string string
  | CallReadDir string
  | CallRun string "string list"
  | CallReadFile string
  | CallRemoveAll string
  | CallOnStage string
  | CallOnLog CommandLog

type_synonym history = "call list"

record Pipeline =
  ffmpegPath :: string
  whisperPath :: string
  runner :: "history \<Rightarrow> string \<Rightarrow> string list \<Rightarrow> commandResult \<times> go_error option"
  mkdirTemp :: "history \<Rightarrow> string \<Rightarrow> string \<Rightarrow> go_error + string"
  removeAll :: "history \<Rightarrow> string \<Rightarrow> go_error option"
  stat :: "history \<Rightarrow> string \<Rightarrow> go_error + FileInfo"
  mkdirAll :: "history \<Rightarrow> string \<Rightarrow> nat \<Rightarrow> go_error option"
  readDir :: "history \<Rightarrow> string \<Rightarrow> go_error + DirEntry list"
  readFile :: "history \<Rightarrow> string \<Rightarrow> go_error + string"

definition emitStage :: "bool \<Rightarrow> string \<Rightarrow> history \<Rightarrow> history" where
  "emitStage cb stage h = (if cb then h @ [CallOnStage stage] else h)"

definition emitLog :: "bool \<Rightarrow> CommandLog \<Rightarrow> history \<Rightarrow> history" where
  "emitLog cb log h = (if cb then h @ [CallOnLog log] else h)"

text \<open>
  The loop of \<^verbatim>\<open>resolveModelPath\<close> over the directory entries, and the function.
  \<^verbatim>\<open>sort.Strings\<close> orders byte-wise, as the order on \<open>string\<close> does.
\<close>

fun modelNames_loop :: "DirEntry list \<Rightarrow> string list \<Rightarrow> string list" where
  "modelNames_loop [] modelNames = modelNames"
| "modelNames_loop (entry # entries) modelNames =
     (if EntryIsDir entry then modelNames_loop entries modelNames
      else let ext = ToLower (Ext (Name entry))
           in if ext = ''.bin'' \<or> ext = ''.gguf''
              then modelNames_loop entries (modelNames @ [Name entry])
              else modelNames_loop entries modelNames)"

definition resolveModelPath :: "Pipeline \<Rightarrow> string \<Rightarrow> history \<Rightarrow> (go_error + string) \<times> history" where
  "resolveModelPath p rawPath h =
     (let modelPath = TrimSpace rawPath in
      if modelPath = [] then (Inl (Errorf ''model path is required''), h)
      else
        (case stat p h modelPath of
           Inl err \<Rightarrow>
             (Inl (Errorf (''cannot access model path: '' @ modelPath)), h @ [CallStat modelPath])
         | Inr info \<Rightarrow>
             if \<not> IsDir info then (Inr modelPath, h @ [CallStat modelPath])
             else
               (case readDir p (h @ [CallStat modelPath]) modelPath of
                  Inl err \<Rightarrow>
                    (Inl (Errorf (''cannot read model directory: '' @ modelPath)),
                     h @ [CallStat modelPath, CallReadDir modelPath])
                | Inr entries \<Rightarrow>
                    (let modelNames = modelNames_loop entries [] in
                     if length modelNames = 0
                     then (Inl (Errorf (''no .bin or .gguf model files found in: '' @ modelPath)),
                           h @ [CallStat modelPath, CallReadDir modelPath])
                     else (Inr (Join modelPath (sort modelNames ! 0)),
                           h @ [CallStat modelPath, CallReadDir modelPath])))))"

definition buildFFmpegArgs :: "string \<Rightarrow> string \<Rightarrow> string list" where
  "buildFFmpegArgs inputPath outPath =
     [''-hide_banner'', ''-nostdin'', ''-y'', ''-i'', inputPath, ''-vn'', ''-ac'', ''1'',
      ''-ar'', ''16000'', ''-c:a'', ''pcm_s16le'', outPath]"

definition transcriptFileName :: "string \<Rightarrow> string" where
  "transcriptFileName inputPath =
     (let base = Base inputPath;
          name = TrimSpace (TrimSuffix base (Ext base));
          name = (if name = [] \<or> name = ''.'' \<or> name = [Separator] then ''transcript'' else name)
      in name @ ''.txt'')"

text \<open>
  \<^verbatim>\<open>Pipeline.Run\<close> in two parts: \<open>Prepare\<close> is the function up to the creation of the
  temporary workspace (it returns the resolved model path and the workspace), and
  \<open>RunStages\<close> is the rest, from the conversion stage on. \<open>Run\<close> is the first followed
  by the second. The permission \<^verbatim>\<open>0o755\<close> is 493.
\<close>

definition Prepare ::
  "Pipeline \<Rightarrow> Request \<Rightarrow> history \<Rightarrow> (PipelineError + string \<times> string) \<times> history" where
  "Prepare p req h0 =
     (if TrimSpace (InputPath req) = [] then
        (Inl \<lparr>Stage = ''preprocessing'', ErrMessage = ''input media path is required'',
              ErrCommandLog = zeroCommandLog, Err = None\<rparr>, h0)
      else
        (case stat p h0 (InputPath req) of
           Inl err \<Rightarrow>
             (Inl \<lparr>Stage = ''preprocessing'',
                   ErrMessage = ''cannot access input media: '' @ InputPath req,
                   ErrCommandLog = zeroCommandLog, Err = Some err\<rparr>,
              h0 @ [CallStat (InputPath req)])
         | Inr _ \<Rightarrow>
        (case resolveModelPath p (ModelPath req) (h0 @ [CallStat (InputPath req)]) of
           (Inl err, h1) \<Rightarrow>
             (Inl \<lparr>Stage = ''transcribing'', ErrMessage = Error err,
                   ErrCommandLog = zeroCommandLog, Err = Some err\<rparr>, h1)
         | (Inr modelPath, h1) \<Rightarrow>
        (if TrimSpace (OutputDir req) = [] then
           (Inl \<lparr>Stage = ''exporting'', ErrMessage = ''output directory is required'',
                 ErrCommandLog = zeroCommandLog, Err = None\<rparr>, h1)
         else
           (case mkdirAll p h1 (OutputDir req) 493 of
              Some err \<Rightarrow>
                (Inl \<lparr>Stage = ''exporting'',
                      ErrMessage = ''cannot create output directory: '' @ OutputDir req,
                      ErrCommandLog = zeroCommandLog, Err = Some err\<rparr>,
                 h1 @ [CallMkdirAll (OutputDir req) 493])
            | None \<Rightarrow>
           (case mkdirTemp p (h1 @ [CallMkdirAll (OutputDir req) 493]) [] ''media-transcriber-*'' of
              Inl err \<Rightarrow>
                (Inl \<lparr>Stage = ''preprocessing'',
                      ErrMessage = ''failed to create temporary workspace'',
                      ErrCommandLog = zeroCommandLog, Err = Some err\<rparr>,
                 h1 @ [CallMkdirAll (OutputDir req) 493, CallMkdirTemp [] ''media-transcriber-*''])
            | Inr tempDir' \<Rightarrow>
                (Inr (modelPath, tempDir'),
                 h1 @ [CallMkdirAll (OutputDir req) 493,
                       CallMkdirTemp [] ''media-transcriber-*''])))))))"

definition RunStages ::
  "Pipeline \<Rightarrow> Request \<Rightarrow> string \<Rightarrow> string \<Rightarrow> history \<Rightarrow> (PipelineError + Result) \<times> history" where
  "RunStages p req modelPath tempDir' h0 =
     (let outPath = Join tempDir' ''preprocessed-16k-mono.wav'';
          h1 = emitStage (OnStage req) ''preprocessing'' h0;
          args = buildFFmpegArgs (InputPath req) outPath;
          (cmdResult, runErr) = runner p h1 (ffmpegPath p) args;
          h2 = h1 @ [CallRun (ffmpegPath p) args];
          log = \<lparr>LogCommand = ffmpegPath p, LogArgs = args, LogExitCode = ResExitCode cmdResult,
                 LogStdout = ResStdout cmdResult, LogStderr = ResStderr cmdResult\<rparr>;
          h3 = emitLog (OnLog req) log h2
      in case runErr of
           Some err \<Rightarrow>
             (Inl \<lparr>Stage = ''preprocessing'', ErrMessage = ''ffmpeg audio conversion failed'',
                   ErrCommandLog = log, Err = Some err\<rparr>,
              h3 @ [CallRemoveAll tempDir'])
         | None \<Rightarrow>
        (case stat p h3 outPath of
           Inl err \<Rightarrow>
             (Inl \<lparr>Stage = ''preprocessing'',
                   ErrMessage = ''ffmpeg completed but output file is missing'',
                   ErrCommandLog = log, Err = Some err\<rparr>,
              h3 @ [CallStat outPath, CallRemoveAll tempDir'])
         | Inr _ \<Rightarrow>
        (let h4 = h3 @ [CallStat outPath];
             textPath = Join (OutputDir req) (transcriptFileName (InputPath req));
             textBase = TrimSuffix textPath (Ext textPath);
             h5 = emitStage (OnStage req) ''transcribing'' h4;
             whisperArgs = buildWhisperArgs modelPath outPath textBase (Language req);
             (whisperResult, runErr) = runner p h5 (whisperPath p) whisperArgs;
             h6 = h5 @ [CallRun (whisperPath p) whisperArgs];
             whisperLog = \<lparr>LogCommand = whisperPath p, LogArgs = whisperArgs,
                 LogExitCode = ResExitCode whisperResult,
                 LogStdout = ResStdout whisperResult, LogStderr = ResStderr whisperResult\<rparr>;
             h7 = emitLog (OnLog req) whisperLog h6
         in case runErr of
              Some err \<Rightarrow>
                (Inl \<lparr>Stage = ''transcribing'', ErrMessage = ''whisper.cpp transcription failed'',
                      ErrCommandLog = whisperLog, Err = Some err\<rparr>,
                 h7 @ [CallRemoveAll tempDir'])
            | None \<Rightarrow>
           (case stat p h7 textPath of
              Inl err \<Rightarrow>
                (Inl \<lparr>Stage = ''exporting'',
                      ErrMessage = ''whisper.cpp completed but transcript .txt file is missing'',
                      ErrCommandLog = whisperLog, Err = Some err\<rparr>,
                 h7 @ [CallStat textPath, CallRemoveAll tempDir'])
            | Inr _ \<Rightarrow>
           (let h8 = emitStage (OnStage req) ''exporting'' (h7 @ [CallStat textPath]) in
            case readFile p h8 textPath of
              Inl err \<Rightarrow>
                (Inl \<lparr>Stage = ''exporting'',
                      ErrMessage = ''failed to read transcript file: '' @ textPath,
                      ErrCommandLog = whisperLog, Err = Some err\<rparr>,
                 h8 @ [CallReadFile textPath, CallRemoveAll tempDir'])
            | Inr content \<Rightarrow>
                (Inr \<lparr>PreprocessedAudioPath = outPath, ResultTextPath = textPath,
                      Transcript = TrimSpace content, Logs = [log, whisperLog],
                      tempDir = tempDir'\<rparr>,
                 h8 @ [CallReadFile textPath]))))))"

definition Run :: "Pipeline \<Rightarrow> Request \<Rightarrow> history \<Rightarrow> (PipelineError + Result) \<times> history" where
  "Run p req h0 =
     (case Prepare p req h0 of
        (Inl err, h) \<Rightarrow> (Inl err, h)
      | (Inr (modelPath, tempDir'), h) \<Rightarrow> RunStages p req modelPath tempDir' h)"




text \<open>The paths that a history removed, oldest first.\<close>

fun removals :: "history \<Rightarrow> string list" where
  "removals [] = []"
| "removals (CallRemoveAll path # h) = path # removals h"
| "removals (_ # h) = removals h"

text \<open>
  An environment after the package's tests: \<open>/models\<close> is a directory holding
  \<open>z-large.bin\<close> and \<open>a-small.gguf\<close>, \<open>/empty\<close> an empty directory, \<open>/missing\<close> does not
  exist, every other path is a regular file; every command fails with exit code 1. In
  \<open>tools_ok_pipeline\<close> every command succeeds.
\<close>

definition model_dir_pipeline :: Pipeline where
  "model_dir_pipeline =
     \<lparr>ffmpegPath = ''ffmpeg'', whisperPath = ''whisper.cpp'',
      runner = (\<lambda>h name args.
         (\<lparr>ResStdout = [], ResStderr = ''ffmpeg failed'', ResExitCode = 1\<rparr>,
          Some (GoError ''exit status 1'' False (Some 1)))),
      mkdirTemp = (\<lambda>h dir pattern. Inr ''/tmp/media-transcriber-1''),
      removeAll = (\<lambda>h path. None),
      stat = (\<lambda>h name.
         if name = ''/models'' \<or> name = ''/empty'' then Inr \<lparr>IsDir = True\<rparr>
         else if name = ''/missing'' then Inl (GoError ''no such file or directory'' False None)
         else Inr \<lparr>IsDir = False\<rparr>),
      mkdirAll = (\<lambda>h path perm. None),
      readDir = (\<lambda>h name.
         if name = ''/models'' then Inr [\<lparr>Name = ''z-large.bin'', EntryIsDir = False\<rparr>,
                                         \<lparr>Name = ''a-small.gguf'', EntryIsDir = False\<rparr>]
         else Inr []),
      readFile = (\<lambda>h name. Inr '' hello '')\<rparr>"




section \<open>Orchestration (package bootstrap, app.go)\<close>

text \<open>
  \<^verbatim>\<open>fmt.Sprintf\<close> with the verb \<^verbatim>\<open>%d\<close>: the decimal digits of an integer.
\<close>

fun itoa_nat :: "nat \<Rightarrow> string" where
  "itoa_nat n =
     (if n < 10 then [char_of (48 + n)]
      else itoa_nat (n div 10) @ [char_of (48 + n mod 10)])"

declare itoa_nat.simps [simp del]

definition itoa :: "int \<Rightarrow> string" where
  "itoa i = (if i < 0 then CHR ''-'' # itoa_nat (nat (- i)) else itoa_nat (nat i))"

text \<open>\<^verbatim>\<open>PipelineError.Error\<close> (pipeline.go), for a receiver that is not nil.\<close>

definition PipelineError_Error :: "PipelineError \<Rightarrow> string" where
  "PipelineError_Error e =
     (if LogCommand (ErrCommandLog e) = [] then Stage e @ '': '' @ ErrMessage e
      else Stage e @ '': '' @ ErrMessage e @ '' (cmd='' @ LogCommand (ErrCommandLog e)
             @ '' exit='' @ itoa (LogExitCode (ErrCommandLog e)) @ '')'')"

text \<open>
  \<^verbatim>\<open>execRunner.Run\<close> (pipeline.go), the runner of the production pipeline. Its argument
  is what \<^verbatim>\<open>cmd.Run()\<close> left behind: the two captured outputs and the error. The
  error is handed on as it is; the exit code is the one of the \<^verbatim>\<open>*exec.ExitError\<close> in
  it, or \<open>-1\<close> without one.
\<close>

definition execRunner_Run ::
  "string \<times> string \<times> go_error option \<Rightarrow> commandResult \<times> go_error option" where
  "execRunner_Run cmdRun =
     (case cmdRun of (stdout, stderr, err) \<Rightarrow>
        (case err of
           Some e \<Rightarrow>
             (\<lparr>ResStdout = stdout, ResStderr = stderr,
               ResExitCode = (case ExitErrorCode e of Some code \<Rightarrow> code | None \<Rightarrow> - 1)\<rparr>,
              Some e)
         | None \<Rightarrow> (\<lparr>ResStdout = stdout, ResStderr = stderr, ResExitCode = 0\<rparr>, None)))"


definition killedExitError :: go_error where
  "killedExitError = GoError ''signal: killed'' False (Some (- 1))"

text \<open>
  \<^verbatim>\<open>Result.Cleanup\<close> (pipeline.go), for a receiver that is not nil; the second argument
  is the answer of \<^verbatim>\<open>os.RemoveAll\<close>, asked only when there is a workspace.
\<close>

definition Cleanup :: "Result \<Rightarrow> go_error option \<Rightarrow> go_error option \<times> Result" where
  "Cleanup r osRemoveAll =
     (if tempDir r = [] then (None, r)
      else (case osRemoveAll of
              Some err \<Rightarrow> (Some err, r)
            | None \<Rightarrow> (None, r\<lparr>tempDir := []\<rparr>)))"

text \<open>
  \<^verbatim>\<open>domain.Settings\<close>; its fields carry the prefix \<open>Settings\<close> here. The error that the
  pipeline interface returns to the application is a \<^verbatim>\<open>*PipelineError\<close> or another
  error; \<^verbatim>\<open>errors.Is\<close> looks through \<^verbatim>\<open>PipelineError.Unwrap\<close> at the cause.
\<close>

record Settings =
  SettingsModelPath :: string
  SettingsOutputDir :: string
  SettingsLanguage :: string

datatype run_error = PipelineErr PipelineError | PlainErr go_error

fun run_error_IsCanceled :: "run_error \<Rightarrow> bool" where
  "run_error_IsCanceled (PipelineErr e) =
     (case Err e of None \<Rightarrow> False | Some cause \<Rightarrow> IsCanceled cause)"
| "run_error_IsCanceled (PlainErr e) = IsCanceled e"

fun run_error_Error :: "run_error \<Rightarrow> string" where
  "run_error_Error (PipelineErr e) = PipelineError_Error e"
| "run_error_Error (PlainErr e) = Error e"

text \<open>
  The application. \<open>Jobs\<close>, \<open>events'\<close> (the field \<^verbatim>\<open>events\<close>), \<open>activeJobID\<close>,
  \<open>cancel\<close> and \<open>AppSettings\<close> (the field \<^verbatim>\<open>Settings\<close>) are fields of \<^verbatim>\<open>App\<close>; contexts
  are numbered in the order \<^verbatim>\<open>context.WithCancel\<close> makes them, and \<open>cancel\<close> holds the
  number of the context that the stored function cancels, or nothing for \<^verbatim>\<open>nil\<close>. The
  other fields record what the application did: \<open>issued\<close> counts the contexts made,
  \<open>cancelled\<close> lists the contexts whose cancel function was called, \<open>launched\<close> lists the
  tasks started by the \<^verbatim>\<open>go\<close> statement with context and job id, \<open>published\<close> lists the
  events that \<^verbatim>\<open>Publish\<close> returned to \<^verbatim>\<open>publishEvent\<close>, oldest first (with a runtime
  context each of them is also emitted to the user interface), and \<open>clockReads\<close> counts
  the readings of \<^verbatim>\<open>time.Now()\<close>. The clock is a parameter \<open>clock\<close>: its \<open>n\<close>-th reading
  is \<open>clock n\<close>, in nanoseconds.
\<close>

record App =
  AppSettings :: Settings
  Jobs :: Manager
  events' :: EventBus
  activeJobID :: string
  cancel :: "nat option"
  issued :: nat
  cancelled :: "nat list"
  launched :: "(nat \<times> string) list"
  published :: "Event list"
  clockReads :: nat

datatype app_error = LoadSettingsError go_error | JobsError jobs_error

text \<open>The application as \<^verbatim>\<open>NewWithAssets\<close> builds it, from the settings loaded.\<close>

definition NewApp :: "Settings \<Rightarrow> App" where
  "NewApp settings =
     \<lparr>AppSettings = settings, Jobs = NewManager, events' = NewEventBus 1000,
      activeJobID = [], cancel = None, issued = 0, cancelled = [], launched = [],
      published = [], clockReads = 0\<rparr>"

definition publishEvent :: "(nat \<Rightarrow> nat) \<Rightarrow> App \<Rightarrow> Event \<Rightarrow> App" where
  "publishEvent clock a event =
     (case Publish (events' a) (clock (clockReads a)) event of
        (published', bus) \<Rightarrow>
          a\<lparr>events' := bus, published := published a @ [published'],
            clockReads := (if Timestamp event = 0 then clockReads a + 1 else clockReads a)\<rparr>)"

definition publishStatus :: "(nat \<Rightarrow> nat) \<Rightarrow> App \<Rightarrow> string \<Rightarrow> JobStatus \<Rightarrow> string \<Rightarrow> App" where
  "publishStatus clock a jobID status message =
     publishEvent clock a
       (zeroEvent\<lparr>JobID := jobID, Type := EventTypeStatus, EventStatus := status,
          Message := message\<rparr>)"

definition clearActiveJob :: "App \<Rightarrow> string \<Rightarrow> App" where
  "clearActiveJob a jobID =
     (if activeJobID a = jobID then a\<lparr>activeJobID := [], cancel := None\<rparr> else a)"

definition mapStageToStatus :: "string \<Rightarrow> JobStatus option" where
  "mapStageToStatus stage =
     (if stage = ''preprocessing'' then Some JobStatusPreprocessing
      else if stage = ''transcribing'' then Some JobStatusTranscribing
      else if stage = ''exporting'' then Some JobStatusExporting
      else None)"

text \<open>
  \<^verbatim>\<open>StartTranscription\<close> in three parts, in the order of the function:
  \<open>StartTranscription_register\<close> runs from the loading of the settings (whose answer is
  the argument \<open>loaded\<close>) to the end of the locked section that stores the job id and
  the cancel function; \<open>StartTranscription_publish\<close> stores the settings and publishes
  the status event; \<open>StartTranscription_launch\<close> is the \<^verbatim>\<open>go\<close> statement and the return
  of the current job. The lock is free between the first part and the second.
\<close>

definition StartTranscription_register ::
  "(nat \<Rightarrow> nat) \<Rightarrow> App \<Rightarrow> go_error + Settings
     \<Rightarrow> (app_error + string \<times> nat \<times> Settings) \<times> App" where
  "StartTranscription_register clock a loaded =
     (case loaded of
        Inl err \<Rightarrow> (Inl (LoadSettingsError err), a)
      | Inr settings \<Rightarrow>
          (let jobID = ''job-'' @ itoa (int (clock (clockReads a)));
               a = a\<lparr>clockReads := clockReads a + 1\<rparr>
           in case Start (Jobs a) jobID of
                (Some err, m) \<Rightarrow> (Inl (JobsError err), a\<lparr>Jobs := m\<rparr>)
              | (None, m) \<Rightarrow>
                  (let ctx = issued a in
                   (Inr (jobID, ctx, settings),
                    a\<lparr>Jobs := m, issued := issued a + 1, activeJobID := jobID,
                      cancel := Some ctx\<rparr>))))"

definition StartTranscription_publish ::
  "(nat \<Rightarrow> nat) \<Rightarrow> App \<Rightarrow> string \<Rightarrow> Settings \<Rightarrow> App" where
  "StartTranscription_publish clock a jobID settings =
     publishStatus clock (a\<lparr>AppSettings := settings\<rparr>) jobID JobStatusPreprocessing
       ''Job started''"

definition StartTranscription_launch :: "App \<Rightarrow> nat \<Rightarrow> string \<Rightarrow> Job \<times> App" where
  "StartTranscription_launch a ctx jobID =
     (let a = a\<lparr>launched := launched a @ [(ctx, jobID)]\<rparr> in (Current (Jobs a), a))"

definition StartTranscription ::
  "(nat \<Rightarrow> nat) \<Rightarrow> App \<Rightarrow> go_error + Settings \<Rightarrow> (app_error + Job) \<times> App" where
  "StartTranscription clock a loaded =
     (case StartTranscription_register clock a loaded of
        (Inl err, a) \<Rightarrow> (Inl err, a)
      | (Inr (jobID, ctx, settings), a) \<Rightarrow>
          (case StartTranscription_launch
                  (StartTranscription_publish clock a jobID settings) ctx jobID of
             (job, a) \<Rightarrow> (Inr job, a)))"

definition CancelTranscription :: "(nat \<Rightarrow> nat) \<Rightarrow> App \<Rightarrow> jobs_error option \<times> App" where
  "CancelTranscription clock a =
     (let cancel' = cancel a; activeJobID' = activeJobID a
      in case cancel' of
           None \<Rightarrow> (Some ErrNoRunningJob, a)
         | Some ctx \<Rightarrow>
             (let a = a\<lparr>cancelled := cancelled a @ [ctx]\<rparr>
              in case Cancel (Jobs a) of
                   (err, m) \<Rightarrow>
                     if err \<noteq> None \<and> err \<noteq> Some ErrNoRunningJob then (err, a\<lparr>Jobs := m\<rparr>)
                     else if activeJobID' \<noteq> []
                       then (None, publishStatus clock (a\<lparr>Jobs := m\<rparr>) activeJobID'
                                JobStatusCancelled ''Cancellation requested'')
                     else (None, a\<lparr>Jobs := m\<rparr>)))"

text \<open>
  The task \<^verbatim>\<open>runTranscriptionJob\<close>. Its two callbacks are \<open>OnStage_callback\<close> and
  \<open>OnLog_callback\<close>; \<open>callback\<close> applies the one that a call of the pipeline's history
  stands for. \<open>runTranscriptionJob_finish\<close> is the function after \<^verbatim>\<open>Pipeline.Run\<close> has
  returned \<open>outcome\<close>; \<open>osRemoveAll\<close> is the answer that \<^verbatim>\<open>Result.Cleanup\<close> gets.
\<close>

definition job_request :: "string \<Rightarrow> Settings \<Rightarrow> Request" where
  "job_request inputPath settings =
     \<lparr>InputPath = inputPath, ModelPath = SettingsModelPath settings,
      Language = SettingsLanguage settings, OutputDir = SettingsOutputDir settings,
      OnStage = True, OnLog = True\<rparr>"

definition OnStage_callback :: "(nat \<Rightarrow> nat) \<Rightarrow> string \<Rightarrow> App \<Rightarrow> string \<Rightarrow> App" where
  "OnStage_callback clock jobID a stage =
     (case mapStageToStatus stage of
        None \<Rightarrow> a
      | Some status \<Rightarrow>
          (case Transition (Jobs a) status of
             (None, m) \<Rightarrow> publishStatus clock (a\<lparr>Jobs := m\<rparr>) jobID status
                              (''Running '' @ stage @ '' stage'')
           | (Some err, m) \<Rightarrow> a\<lparr>Jobs := m\<rparr>))"

definition OnLog_callback :: "(nat \<Rightarrow> nat) \<Rightarrow> string \<Rightarrow> App \<Rightarrow> CommandLog \<Rightarrow> App" where
  "OnLog_callback clock jobID a log =
     publishEvent clock a
       (zeroEvent\<lparr>JobID := jobID, Type := EventTypeLog, Message := ''Command completed'',
          Command := LogCommand log, Args := LogArgs log, ExitCode := LogExitCode log,
          Stdout := LogStdout log, Stderr := LogStderr log\<rparr>)"

fun callback :: "(nat \<Rightarrow> nat) \<Rightarrow> string \<Rightarrow> App \<Rightarrow> call \<Rightarrow> App" where
  "callback clock jobID a (CallOnStage stage) = OnStage_callback clock jobID a stage"
| "callback clock jobID a (CallOnLog log) = OnLog_callback clock jobID a log"
| "callback clock jobID a _ = a"

definition failedCommandEvent :: "string \<Rightarrow> CommandLog \<Rightarrow> Event" where
  "failedCommandEvent jobID log =
     zeroEvent\<lparr>JobID := jobID, Type := EventTypeLog, Message := ''Failed command'',
       Command := LogCommand log, Args := LogArgs log, ExitCode := LogExitCode log,
       Stdout := LogStdout log, Stderr := LogStderr log\<rparr>"

definition runTranscriptionJob_finish ::
  "(nat \<Rightarrow> nat) \<Rightarrow> App \<Rightarrow> string \<Rightarrow> run_error + Result \<Rightarrow> go_error option \<Rightarrow> App" where
  "runTranscriptionJob_finish clock a jobID outcome osRemoveAll =
     (case outcome of
        Inl err \<Rightarrow>
          if run_error_IsCanceled err then
            (let a = a\<lparr>Jobs := snd (Transition (Jobs a) JobStatusCancelled)\<rparr>;
                 a = publishStatus clock a jobID JobStatusCancelled ''Job cancelled''
             in clearActiveJob a jobID)
          else
            (let a = a\<lparr>Jobs := snd (Transition (Jobs a) JobStatusFailed)\<rparr>;
                 a = publishStatus clock a jobID JobStatusFailed ''Job failed'';
                 a = publishEvent clock a
                       (zeroEvent\<lparr>JobID := jobID, Type := EventTypeError,
                          EventStatus := JobStatusFailed, Message := run_error_Error err\<rparr>);
                 a = (case err of
                        PipelineErr pipelineErr \<Rightarrow>
                          if LogCommand (ErrCommandLog pipelineErr) \<noteq> []
                          then publishEvent clock a
                                 (failedCommandEvent jobID (ErrCommandLog pipelineErr))
                          else a
                      | PlainErr _ \<Rightarrow> a)
             in clearActiveJob a jobID)
      | Inr result \<Rightarrow>
          (let a = (case fst (Cleanup result osRemoveAll) of
                      Some cleanupErr \<Rightarrow>
                        publishEvent clock a
                          (zeroEvent\<lparr>JobID := jobID, Type := EventTypeError,
                             Message := ''cleanup temporary files: '' @ Error cleanupErr\<rparr>)
                    | None \<Rightarrow> a);
               a = (case Transition (Jobs a) JobStatusDone of
                      (None, m) \<Rightarrow> publishStatus clock (a\<lparr>Jobs := m\<rparr>) jobID JobStatusDone
                                      ''Job completed''
                    | (Some err, m) \<Rightarrow> a\<lparr>Jobs := m\<rparr>);
               a = publishEvent clock a
                     (zeroEvent\<lparr>JobID := jobID, Type := EventTypeResult,
                        EventStatus := JobStatusDone, Message := ''Transcript exported'',
                        TextPath := ResultTextPath result\<rparr>)
           in clearActiveJob a jobID))"

text \<open>
  What happens to the application, one call at a time: a call of \<open>StartTranscription\<close>
  with the answer of the settings store, a call of \<open>CancelTranscription\<close>, a callback of
  the task of a job, or the end of such a task. \<open>app_run\<close> makes the calls of a list in
  order, each one completed before the next.
\<close>

datatype app_call =
    DoStartTranscription "go_error + Settings"
  | DoCancelTranscription
  | DoCallback string call
  | DoFinish string "run_error + Result" "go_error option"

fun app_step :: "(nat \<Rightarrow> nat) \<Rightarrow> App \<Rightarrow> app_call \<Rightarrow> App" where
  "app_step clock a (DoStartTranscription loaded) = snd (StartTranscription clock a loaded)"
| "app_step clock a DoCancelTranscription = snd (CancelTranscription clock a)"
| "app_step clock a (DoCallback jobID c) = callback clock jobID a c"
| "app_step clock a (DoFinish jobID outcome osRemoveAll) =
     runTranscriptionJob_finish clock a jobID outcome osRemoveAll"

definition app_run :: "(nat \<Rightarrow> nat) \<Rightarrow> App \<Rightarrow> app_call list \<Rightarrow> App" where
  "app_run clock a calls = foldl (app_step clock) a calls"


text \<open>What an event says, for comparing histories: number, job, type, status, message.\<close>

definition headline :: "Event \<Rightarrow> int \<times> string \<times> EventType \<times> JobStatus \<times> string" where
  "headline e = (Seq e, JobID e, Type e, EventStatus e, Message e)"


text \<open>
  The calls that the task \<^verbatim>\<open>runTranscriptionJob\<close> of a job makes on the application
  when its pipeline is the one of package \<^verbatim>\<open>transcribe\<close>: the callbacks of the run in
  the order of its history, then the end of the task with the outcome of the run.
\<close>

definition runTranscriptionJob_calls ::
  "Pipeline \<Rightarrow> string \<Rightarrow> string \<Rightarrow> Settings \<Rightarrow> go_error option \<Rightarrow> app_call list" where
  "runTranscriptionJob_calls p jobID inputPath settings osRemoveAll =
     (case Run p (job_request inputPath settings) [] of
        (outcome, h) \<Rightarrow>
          map (DoCallback jobID) h
          @ [DoFinish jobID (case outcome of Inl e \<Rightarrow> Inl (PipelineErr e) | Inr r \<Rightarrow> Inr r)
               osRemoveAll])"

text \<open>
  Concrete runs. The settings point at the environment of \<^const>\<open>model_dir_pipeline\<close>;
  \<open>ticking_clock\<close> advances by one nanosecond with every reading, starting at 5, and
  \<open>coarse_clock\<close> stays at 5. In \<open>killed_whisper_pipeline\<close> the runner is the production
  runner: the conversion tool succeeds, and the transcription tool is killed while it
  runs, its context having been cancelled.
\<close>

definition clip_settings :: Settings where
  "clip_settings =
     \<lparr>SettingsModelPath = ''/models'', SettingsOutputDir = ''/out'', SettingsLanguage = ''auto''\<rparr>"

definition ticking_clock :: "nat \<Rightarrow> nat" where
  "ticking_clock n = 5 + n"


definition killed_whisper_pipeline :: Pipeline where
  "killed_whisper_pipeline =
     model_dir_pipeline\<lparr>runner := (\<lambda>h name args.
        if name = ''whisper.cpp'' then execRunner_Run ([], [], Some killedExitError)
        else execRunner_Run (''ok'', [], None))\<rparr>"

text \<open>
  The job \<open>job-5\<close> on \<^const>\<open>killed_whisper_pipeline\<close>: \<open>killed_job_calls\<close> are the calls
  of its task, \<open>transcribing_app\<close> is the application after the start and the first ten
  of them (the tenth is the stage callback for \<open>transcribing\<close>, the eleventh the run of the
  transcription tool), and \<open>cancelled_while_transcribing\<close> is the application after a
  \<open>CancelTranscription\<close> at that point and the rest of the task.
\<close>

definition killed_job_calls :: "app_call list" where
  "killed_job_calls =
     runTranscriptionJob_calls killed_whisper_pipeline ''job-5'' ''/in/clip.mp4''
       clip_settings None"

definition transcribing_app :: App where
  "transcribing_app =
     app_run ticking_clock (NewApp clip_settings)
       (DoStartTranscription (Inr clip_settings) # take 10 killed_job_calls)"

definition cancelled_while_transcribing :: App where
  "cancelled_while_transcribing =
     app_run ticking_clock transcribing_app (DoCancelTranscription # drop 10 killed_job_calls)"






chapter \<open>Properties\<close>

section \<open>Properties of the job manager\<close>

lemma isValidTransition_table:
  "isValidTransition from to \<longleftrightarrow> (from, to) \<in> set spec_edge_table"
  unfolding isValidTransition_def spec_edge_table_def JobStatus_defs by auto

lemma isRunning_active: "isRunning s \<longleftrightarrow> s \<in> spec_active"
  by (simp add: isRunning_def spec_active_def)

lemma idle_not_running: "\<not> isRunning JobStatusIdle"
  by (simp add: isRunning_def JobStatus_defs)

lemma manager_after_snoc:
  "manager_after (calls @ [c]) = manager_step (manager_after calls) c"
  by (simp add: manager_after_def)

text \<open>
  A job id is empty only in the idle state, as long as no job was started with the
  empty id: the invariant behind the guard of \<^const>\<open>Transition\<close>.
\<close>

lemma manager_step_keeps_id_invariant:
  assumes "ID (current m) = [] \<longrightarrow> Status (current m) = JobStatusIdle"
    and "c \<noteq> CallStart []"
  shows "ID (current (manager_step m c)) = [] \<longrightarrow>
    Status (current (manager_step m c)) = JobStatusIdle"
proof (cases c)
  case (CallStart jobID)
  with assms show ?thesis by (auto simp add: Start_def JobStatus_defs)
next
  case (CallTransition status)
  with assms show ?thesis by (simp add: Transition_def)
next
  case CallCancel
  with assms idle_not_running show ?thesis by (auto simp add: Cancel_def)
next
  case CallReset
  then show ?thesis by (simp add: Reset_def)
qed

lemma reachable_id_invariant:
  "CallStart [] \<notin> set calls \<Longrightarrow>
   ID (current (manager_after calls)) = [] \<longrightarrow>
     Status (current (manager_after calls)) = JobStatusIdle"
proof (induction calls rule: rev_induct)
  case Nil
  show ?case by (simp add: manager_after_def NewManager_def)
next
  case (snoc c calls)
  then have "c \<noteq> CallStart []" and "CallStart [] \<notin> set calls" by auto
  with snoc.IH show ?case
    unfolding manager_after_snoc by (intro manager_step_keeps_id_invariant) simp_all
qed

text \<open>
  C1, as the code has it. \<^const>\<open>Transition\<close> first refuses every target but idle while
  no job id is set (a usage error, not an invalid-transition error). Past that guard it
  follows the specification's table: the target equal to the current status is a no-op,
  an edge of the table sets the status and keeps the id, and any other pair fails with
  the invalid-transition error carrying both statuses and leaves the job as it was. In
  every state reached from a new manager by calls that never start a job under the
  empty id, a transition to the current status succeeds and changes nothing.
\<close>

theorem Transition_follows_table:
  "Transition m to =
     (if ID (current m) = [] \<and> to \<noteq> JobStatusIdle then (Some ErrTransitionWithoutJob, m)
      else if to = Status (current m) then (None, m)
      else if (Status (current m), to) \<in> set spec_edge_table
        then (None, m\<lparr>current := \<lparr>ID = ID (current m), Status = to\<rparr>\<rparr>)
      else (Some (ErrInvalidTransition (Status (current m)) to), m))
   \<and> (CallStart [] \<notin> set calls \<longrightarrow>
        Transition (manager_after calls) (Status (current (manager_after calls)))
          = (None, manager_after calls))"
proof
  show "Transition m to =
     (if ID (current m) = [] \<and> to \<noteq> JobStatusIdle then (Some ErrTransitionWithoutJob, m)
      else if to = Status (current m) then (None, m)
      else if (Status (current m), to) \<in> set spec_edge_table
        then (None, m\<lparr>current := \<lparr>ID = ID (current m), Status = to\<rparr>\<rparr>)
      else (Some (ErrInvalidTransition (Status (current m)) to), m))"
    by (auto simp add: Transition_def isValidTransition_table)
next
  show "CallStart [] \<notin> set calls \<longrightarrow>
        Transition (manager_after calls) (Status (current (manager_after calls)))
          = (None, manager_after calls)"
  proof
    assume "CallStart [] \<notin> set calls"
    from reachable_id_invariant [OF this]
    show "Transition (manager_after calls) (Status (current (manager_after calls)))
          = (None, manager_after calls)"
      by (simp add: Transition_def)
  qed
qed

theorem Transition_follows_table_witness:
  "CallStart [] \<notin> set [CallStart ''job-1'', CallTransition JobStatusTranscribing]
   \<and> Transition (manager_after [CallStart ''job-1'', CallTransition JobStatusTranscribing])
        JobStatusTranscribing
      = (None, \<lparr>current = \<lparr>ID = ''job-1'', Status = JobStatusTranscribing\<rparr>\<rparr>)
   \<and> Transition \<lparr>current = \<lparr>ID = ''job-1'', Status = JobStatusTranscribing\<rparr>\<rparr> JobStatusExporting
      = (None, \<lparr>current = \<lparr>ID = ''job-1'', Status = JobStatusExporting\<rparr>\<rparr>)
   \<and> Transition \<lparr>current = \<lparr>ID = ''job-1'', Status = JobStatusTranscribing\<rparr>\<rparr> JobStatusDone
      = (Some (ErrInvalidTransition JobStatusTranscribing JobStatusDone),
         \<lparr>current = \<lparr>ID = ''job-1'', Status = JobStatusTranscribing\<rparr>\<rparr>)"
proof -
  have calls: "manager_after [CallStart ''job-1'', CallTransition JobStatusTranscribing]
      = \<lparr>current = \<lparr>ID = ''job-1'', Status = JobStatusTranscribing\<rparr>\<rparr>"
    by (simp add: manager_after_def NewManager_def Start_def Transition_def
        isRunning_def isValidTransition_def JobStatus_defs)
  have ok: "CallStart [] \<notin> set [CallStart ''job-1'', CallTransition JobStatusTranscribing]"
    by simp
  show ?thesis
    using Transition_follows_table
        [of "\<lparr>current = \<lparr>ID = ''job-1'', Status = JobStatusTranscribing\<rparr>\<rparr>" JobStatusExporting
          "[CallStart ''job-1'', CallTransition JobStatusTranscribing]"]
      Transition_follows_table
        [of "\<lparr>current = \<lparr>ID = ''job-1'', Status = JobStatusTranscribing\<rparr>\<rparr>" JobStatusDone
          "[CallStart ''job-1'', CallTransition JobStatusTranscribing]"]
      ok calls
    by (simp add: spec_edge_table_def JobStatus_defs)
qed

text \<open>
  C1 as the specification states it fails on a new manager: idle to preprocessing is
  an edge of the table, yet the transition is refused because no job id is set; idle
  to done is not an edge, yet the error is the usage error and not the
  invalid-transition error; and after a start under the empty id the transition to the
  current status is refused too.
\<close>

theorem Transition_table_counterexample:
  "Status (current NewManager) = JobStatusIdle
   \<and> (JobStatusIdle, JobStatusPreprocessing) \<in> set spec_edge_table
   \<and> Transition NewManager JobStatusPreprocessing = (Some ErrTransitionWithoutJob, NewManager)
   \<and> (JobStatusIdle, JobStatusDone) \<notin> set spec_edge_table
   \<and> Transition NewManager JobStatusDone = (Some ErrTransitionWithoutJob, NewManager)
   \<and> Status (current (manager_after [CallStart []])) = JobStatusPreprocessing
   \<and> Transition (manager_after [CallStart []]) JobStatusPreprocessing
      = (Some ErrTransitionWithoutJob, manager_after [CallStart []])"
  by (simp add: NewManager_def Transition_def spec_edge_table_def manager_after_def Start_def
      isRunning_def JobStatus_defs)

text \<open>
  C8. \<^const>\<open>Start\<close> fails with the already-running error exactly when the current
  status is preprocessing, transcribing or exporting, and then leaves the manager as it
  was; in every other state it succeeds and the job record becomes the given id with
  status preprocessing.
\<close>

theorem Start_exclusive:
  "(fst (Start m jobID) = Some ErrJobAlreadyRunning \<longleftrightarrow> Status (current m) \<in> spec_active)
   \<and> Start m jobID =
       (if Status (current m) \<in> spec_active then (Some ErrJobAlreadyRunning, m)
        else (None, m\<lparr>current := \<lparr>ID = jobID, Status = JobStatusPreprocessing\<rparr>\<rparr>))"
  by (simp add: Start_def isRunning_active)

text \<open>
  C9. \<^const>\<open>Cancel\<close> fails with the no-running-job error exactly when the current
  status is not preprocessing, transcribing or exporting; otherwise it succeeds and sets
  the status to cancelled, keeping the id. Of two consecutive calls the second always
  fails with the no-running-job error, whatever the first one did.
\<close>

theorem Cancel_contract:
  "(fst (Cancel m) = Some ErrNoRunningJob \<longleftrightarrow> Status (current m) \<notin> spec_active)
   \<and> Cancel m =
       (if Status (current m) \<in> spec_active
        then (None, m\<lparr>current := \<lparr>ID = ID (current m), Status = JobStatusCancelled\<rparr>\<rparr>)
        else (Some ErrNoRunningJob, m))
   \<and> fst (Cancel (snd (Cancel m))) = Some ErrNoRunningJob"
  by (simp add: Cancel_def isRunning_active) (simp add: spec_active_def JobStatus_defs)

section \<open>Properties of the event bus\<close>

lemma length_spec_history [simp]: "length (spec_history n xs) = length xs"
  by (induction xs arbitrary: n) simp_all

lemma Seq_stamp [simp]: "Seq (stamp n x) = n"
  by (simp add: stamp_def)
















section \<open>Properties of the language flag\<close>

lemma asciiLower_eq_lower:
  assumes "97 \<le> (of_char x :: nat)" "(of_char x :: nat) \<le> 122"
  shows "(tr = x \<or> (asciiUpper tr \<and> (of_char x :: nat) = of_char tr + 32)
          \<or> (asciiUpper x \<and> (of_char tr :: nat) = of_char x + 32))
         \<longleftrightarrow> asciiLower tr = x"
proof -
  have nx: "\<not> asciiUpper x" using assms by (simp add: asciiUpper_def)
  show ?thesis
  proof (cases "asciiUpper tr")
    case True
    then have lt: "(of_char tr :: nat) + 32 < 256" by (simp add: asciiUpper_def)
    have "asciiLower tr = x \<longleftrightarrow> (of_char x :: nat) = of_char tr + 32"
    proof
      assume "asciiLower tr = x"
      then have "x = char_of ((of_char tr :: nat) + 32)" using True by (simp add: asciiLower_def)
      then show "(of_char x :: nat) = of_char tr + 32" using lt by simp
    next
      assume "(of_char x :: nat) = of_char tr + 32"
      then have "char_of ((of_char tr :: nat) + 32) = x" by (metis char_of_char)
      then show "asciiLower tr = x" using True by (simp add: asciiLower_def)
    qed
    moreover have "tr \<noteq> x" using True nx by auto
    ultimately show ?thesis using True nx by auto
  next
    case False
    then show ?thesis using nx by (auto simp add: asciiLower_def)
  qed
qed


lemma EqualFold_lower:
  "(\<forall>c \<in> set t. 97 \<le> (of_char c :: nat) \<and> (of_char c :: nat) \<le> 122) \<Longrightarrow>
   EqualFold s t \<longleftrightarrow> map asciiLower s = t"
proof (induction s t rule: EqualFold.induct)
  case (2 sr s tr t)
  have low: "97 \<le> (of_char tr :: nat)" "(of_char tr :: nat) \<le> 122" using "2.prems" by simp_all
  have tail: "\<forall>c \<in> set t. 97 \<le> (of_char c :: nat) \<and> (of_char c :: nat) \<le> 122"
    using "2.prems" by simp
  have notup: "\<not> asciiUpper tr" using low by (simp add: asciiUpper_def)
  note char = asciiLower_eq_lower [OF low, of sr]
  show ?case
  proof (cases "tr = sr")
    case True
    with "2.IH"(1) [OF True tail] char show ?thesis by simp
  next
    case ne: False
    show ?thesis
    proof (cases "asciiUpper sr \<and> (of_char tr :: nat) = of_char sr + 32")
      case True
      with ne "2.IH"(2) [OF ne True tail] char show ?thesis by simp
    next
      case False
      with ne notup char show ?thesis by auto
    qed
  qed
qed simp_all

lemma EqualFold_auto: "EqualFold s ''auto'' \<longleftrightarrow> map asciiLower s = ''auto''"
  by (rule EqualFold_lower) simp

lemma trimLeftFunc_id: "spaceWidth spaces s = 0 \<Longrightarrow> trimLeftFunc spaces s = s"
  by (subst trimLeftFunc.simps) simp

text \<open>
  C5, as the code has it. For every model path, audio path and output base the argument
  list is the four fixed options, followed by nothing when the language, trimmed of white
  space, is empty or equal to \<open>auto\<close> in any letter case, and otherwise by \<open>-l\<close> and the
  trimmed language. A language with no white space at either end is its own trimmed
  value, and is then passed exactly.
\<close>

theorem buildWhisperArgs_language_flag:
  "buildWhisperArgs modelPath audioPath textBase language =
     [''-m'', modelPath, ''-f'', audioPath, ''-of'', textBase, ''-otxt''] @
     (if TrimSpace language = [] \<or> map asciiLower (TrimSpace language) = ''auto'' then []
      else [''-l'', TrimSpace language])
   \<and> (spaceWidth unicodeSpaces language = 0
        \<and> spaceWidth (map rev unicodeSpaces) (rev language) = 0
      \<longrightarrow> TrimSpace language = language)"
  by (simp add: buildWhisperArgs_def normalizeLanguage_def Let_def EqualFold_auto
      TrimSpace_def trimLeftFunc_id)

lemmas TrimSpace_eval = TrimSpace_def trimLeftFunc.simps spaceWidth_def unicodeSpaces_def

theorem buildWhisperArgs_language_flag_witness:
  "spaceWidth unicodeSpaces ''en'' = 0 \<and> spaceWidth (map rev unicodeSpaces) (rev ''en'') = 0
   \<and> buildWhisperArgs ''model.bin'' ''audio.wav'' ''out/clip'' ''en''
      = [''-m'', ''model.bin'', ''-f'', ''audio.wav'', ''-of'', ''out/clip'', ''-otxt'', ''-l'', ''en'']
   \<and> buildWhisperArgs ''model.bin'' ''audio.wav'' ''out/clip'' '' AUTO ''
      = [''-m'', ''model.bin'', ''-f'', ''audio.wav'', ''-of'', ''out/clip'', ''-otxt'']
   \<and> buildWhisperArgs ''model.bin'' ''audio.wav'' ''out/clip'' [CHR 0x20, CHR 0x09]
      = [''-m'', ''model.bin'', ''-f'', ''audio.wav'', ''-of'', ''out/clip'', ''-otxt'']"
proof -
  have w: "spaceWidth unicodeSpaces ''en'' = 0 \<and> spaceWidth (map rev unicodeSpaces) (rev ''en'') = 0"
    by (simp add: spaceWidth_def unicodeSpaces_def)
  have t1: "TrimSpace '' AUTO '' = ''AUTO''" by (simp add: TrimSpace_eval)
  have t2: "TrimSpace [CHR 0x20, CHR 0x09] = []" by (simp add: TrimSpace_eval)
  have l: "map asciiLower ''AUTO'' = ''auto''" "map asciiLower ''en'' \<noteq> ''auto''"
    by code_simp+
  show ?thesis
    using buildWhisperArgs_language_flag [of "''model.bin''" "''audio.wav''" "''out/clip''" "''en''"]
      buildWhisperArgs_language_flag [of "''model.bin''" "''audio.wav''" "''out/clip''" "'' AUTO ''"]
      buildWhisperArgs_language_flag [of "''model.bin''" "''audio.wav''" "''out/clip''" "[CHR 0x20, CHR 0x09]"]
      w t1 t2 l
    by simp
qed

text \<open>
  C5 as the specification states it fails for a language with white space around it:
  the value \<open>'' en ''\<close> is not empty and not \<open>auto\<close>, yet the flag carries \<open>''en''\<close>
  and the argument list does not hold the value itself.
\<close>

theorem language_flag_value_counterexample:
  "TrimSpace '' en '' \<noteq> [] \<and> map asciiLower (TrimSpace '' en '') \<noteq> ''auto''
   \<and> buildWhisperArgs ''model.bin'' ''audio.wav'' ''out/clip'' '' en ''
      = [''-m'', ''model.bin'', ''-f'', ''audio.wav'', ''-of'', ''out/clip'', ''-otxt'', ''-l'', ''en'']
   \<and> '' en '' \<notin> set (buildWhisperArgs ''model.bin'' ''audio.wav'' ''out/clip'' '' en '')"
proof -
  have t: "TrimSpace '' en '' = ''en''" by (simp add: TrimSpace_eval)
  have e: "\<not> EqualFold ''en'' ''auto''" by simp
  show ?thesis
    by (simp add: t e buildWhisperArgs_def normalizeLanguage_def Let_def asciiLower_def asciiUpper_def)
qed

section \<open>Properties of the pipeline\<close>








lemma removals_append [simp]: "removals (a @ b) = removals a @ removals b"
  by (induction a rule: removals.induct) simp_all

lemma removals_emitStage [simp]: "removals (emitStage cb stage h) = removals h"
  by (simp add: emitStage_def)

lemma removals_emitLog [simp]: "removals (emitLog cb log h) = removals h"
  by (simp add: emitLog_def)










section \<open>Properties of the orchestration\<close>




















lemma app_run_append:
  "app_run clock a (xs @ ys) = app_run clock (app_run clock a xs) ys"
  by (simp add: app_run_def)





text \<open>
  C2. The job \<open>job-5\<close> runs on the production runner and is in status \<open>transcribing\<close>,
  the transcription tool running, when \<open>CancelTranscription\<close> is called; the call
  succeeds and cancels the job's context, and the tool is killed. The error that the
  runner hands on is the exit error of the killed tool and not the context's error, so
  the task takes the branch of a failure: the job manager keeps the status \<open>cancelled\<close>
  (the transition to \<open>failed\<close> is refused and its error dropped), but after the
  cancellation event a status event with status \<open>failed\<close>, an event of type \<open>error\<close> and
  a log event for the failed command are published under the job's id.
\<close>

theorem cancel_while_transcribing_publishes_failure:
  "Current (Jobs transcribing_app) = \<lparr>ID = ''job-5'', Status = JobStatusTranscribing\<rparr>
   \<and> cancel transcribing_app = Some 0
   \<and> killed_job_calls ! 10
       = DoCallback ''job-5'' (CallRun ''whisper.cpp''
           [''-m'', ''/models/a-small.gguf'', ''-f'',
            ''/tmp/media-transcriber-1/preprocessed-16k-mono.wav'', ''-of'', ''/out/clip'',
            ''-otxt''])
   \<and> fst (CancelTranscription ticking_clock transcribing_app) = None
   \<and> cancelled cancelled_while_transcribing = [0]
   \<and> Current (Jobs cancelled_while_transcribing) = \<lparr>ID = ''job-5'', Status = JobStatusCancelled\<rparr>
   \<and> map headline (published cancelled_while_transcribing)
       = [(1, ''job-5'', ''status'', ''preprocessing'', ''Job started''),
          (2, ''job-5'', ''status'', ''preprocessing'', ''Running preprocessing stage''),
          (3, ''job-5'', ''log'', [], ''Command completed''),
          (4, ''job-5'', ''status'', ''transcribing'', ''Running transcribing stage''),
          (5, ''job-5'', ''status'', ''cancelled'', ''Cancellation requested''),
          (6, ''job-5'', ''log'', [], ''Command completed''),
          (7, ''job-5'', ''status'', ''failed'', ''Job failed''),
          (8, ''job-5'', ''error'', ''failed'',
           ''transcribing: whisper.cpp transcription failed (cmd=whisper.cpp exit=-1)''),
          (9, ''job-5'', ''log'', [], ''Failed command'')]"
  by code_simp



end
